theory Spec2Isabelle
  imports Main
begin

section \<open>Run-time failures\<close>

text \<open>
  The Go code has no error returns of its own; what can go wrong is a run-time panic.
  Two panics are reachable from the package: a method or field read through a nil
  pointer, and a slice expression whose low bound exceeds the length.  A function that
  may panic returns \<open>panic + 'a\<close>, with \<open>Inl\<close> the panic.
\<close>

datatype panic =
    NilDereference
  | SliceBoundsOutOfRange nat nat

section \<open>The command-line renderer\<close>

text \<open>
  \<open>cmdline\<close> calls two functions of the Go standard library.  \<open>filepath.Base\<close> is
  modelled in its Unix form (separator \<open>/\<close>, no volume names): the empty path gives
  \<open>.\<close>, trailing separators are stripped, the part after the last remaining separator
  is kept, and a path of separators only gives \<open>/\<close>.  Its two loops scan the string
  from its end; \<open>dropWhile\<close> and \<open>takeWhile\<close> on the reversed string do the same.
\<close>

definition IsPathSeparator :: "char \<Rightarrow> bool" where
  "IsPathSeparator c = (c = CHR ''/'')"

definition Base :: "string \<Rightarrow> string" where
  "Base path =
     (if path = [] then ''.''
      else
        let stripped = rev (dropWhile IsPathSeparator (rev path));
            element = rev (takeWhile (\<lambda>c. \<not> IsPathSeparator c) (rev stripped))
        in if element = [] then ''/'' else element)"

text \<open>
  \<open>strings.Join\<close>: no element gives the empty string, one element gives that element,
  otherwise the first element is written and then, for each further element, the
  separator and the element.
\<close>

definition Join :: "string list \<Rightarrow> string \<Rightarrow> string" where
  "Join elems sep =
     (case elems of
        [] \<Rightarrow> []
      | [e] \<Rightarrow> e
      | e # es \<Rightarrow> foldl (\<lambda>b s. b @ sep @ s) e es)"

text \<open>
  The slice expression \<open>a[low:]\<close> panics when \<open>low\<close> exceeds the length of \<open>a\<close>.
\<close>

definition slice_from :: "nat \<Rightarrow> 'a list \<Rightarrow> panic + 'a list" where
  "slice_from low a =
     (if low \<le> length a then Inr (drop low a)
      else Inl (SliceBoundsOutOfRange low (length a)))"

text \<open>
  \<open>cmdline\<close> appends the base name and \<open>args[1:]\<close> to an empty slice and joins the
  result with single spaces.
\<close>

definition cmdline :: "string \<Rightarrow> string list \<Rightarrow> panic + string" where
  "cmdline path args =
     (let cmdline0 = [] @ [Base path] in
      case slice_from 1 args of
        Inl p \<Rightarrow> Inl p
      | Inr rest \<Rightarrow> Inr (Join (cmdline0 @ rest) '' ''))"

section \<open>Values of the collaborators\<close>

text \<open>
  Pointers are addresses.  A pointer that may be nil is an \<open>addr option\<close>, and two
  pointers are the same pointer when the addresses are equal: this is the identity that
  \<open>Wrap\<close> compares.  An environment map (\<open>env.Map\<close>, a Go map from string to
  string) is a partial function; a duration is its number of nanoseconds.
\<close>

type_synonym addr = nat

type_synonym env_Map = "string \<rightharpoonup> string"

type_synonym Duration = int

type_synonym rune = int

text \<open>
  Of an \<open>os.ProcessState\<close> the package reads three things: the text of \<open>String()\<close>
  and the two CPU times.
\<close>

record os_ProcessState =
  ps_String :: string
  ps_UserTime :: Duration
  ps_SystemTime :: Duration

text \<open>
  \<open>exec.ExitError\<close> embeds a \<open>*os.ProcessState\<close> and holds the captured standard
  error, a byte slice that is nil when nothing was captured.
\<close>

record exec_ExitError =
  ee_ProcessState :: "addr option"
  ee_Stderr :: "string option"

text \<open>
  The fields of \<open>exec.Cmd\<close> that \<open>Wrap\<close> and \<open>Cmdline\<close> read.  \<open>Env\<close> is a slice
  that may be nil.
\<close>

record exec_Cmd =
  cmd_Path :: string
  cmd_Args :: "string list"
  cmd_Env :: "string list option"
  cmd_Dir :: string
  cmd_ProcessState :: "addr option"

text \<open>
  The store holds the objects that pointers of the two standard-library types point to.
  Go has no dangling pointers, so every address holds an object.
\<close>

record store =
  processStates :: "addr \<Rightarrow> os_ProcessState"
  exitErrors :: "addr \<Rightarrow> exec_ExitError"

text \<open>
  What \<open>Wrap\<close> reads from the running process: the result of \<open>env.Variables()\<close> and
  the result of \<open>os.Getwd()\<close>, \<open>None\<close> when that call returns an error.
\<close>

record world =
  env_Variables :: env_Map
  os_Getwd :: "string option"

section \<open>The decorated exit error\<close>

text \<open>
  The struct \<open>ExitError\<close> of the package.  Its first field is the embedded
  \<open>*exec.ExitError\<close>.  A \<open>*ExitError\<close> is modelled by the contents of the struct it
  points to (the struct is never written after \<open>Wrap\<close> has built it), \<open>None\<close> being
  the nil pointer.
\<close>

record ExitError =
  ExitError :: "addr option"
  Path :: string
  Args :: "string list"
  Dir :: string
  ParentEnv :: env_Map
  ChildEnv :: env_Map

text \<open>
  A non-nil value of the interface type \<open>error\<close> is a dynamic type with a value: a
  \<open>*exec.ExitError\<close> (possibly a nil pointer of that type), a \<open>*ExitError\<close> of this
  package, or a value of any other type, named by a number.  The interface value nil is
  \<open>None\<close> of \<open>error option\<close>.
\<close>

datatype error =
    PExecExitError "addr option"
  | PExitError "ExitError option"
  | OtherError nat

section \<open>Cmdline and Wrap\<close>

definition Cmdline :: "exec_Cmd option \<Rightarrow> panic + string" where
  "Cmdline cmd =
     (case cmd of
        None \<Rightarrow> Inl NilDereference
      | Some c \<Rightarrow> cmdline (cmd_Path c) (cmd_Args c))"

text \<open>
  \<open>Wrap\<close>, statement by statement.  \<open>env.Parse\<close> belongs to another module and is a
  parameter.  The type assertion succeeds on any \<open>*exec.ExitError\<close>, also a nil one;
  the comparison \<open>ee.ProcessState != cmd.ProcessState\<close> then reads through \<open>ee\<close> and
  through \<open>cmd\<close>, in that order.
\<close>

definition Wrap ::
  "(string list \<Rightarrow> env_Map) \<Rightarrow> world \<Rightarrow> store \<Rightarrow> error option \<Rightarrow> exec_Cmd option
     \<Rightarrow> panic + error option" where
  "Wrap env_Parse w st err cmd =
     (case err of
        None \<Rightarrow> Inr None
      | Some (OtherError x) \<Rightarrow> Inr err
      | Some (PExitError d) \<Rightarrow> Inr err
      | Some (PExecExitError ee) \<Rightarrow>
          (case ee of
             None \<Rightarrow> Inl NilDereference
           | Some a \<Rightarrow>
               (case cmd of
                  None \<Rightarrow> Inl NilDereference
                | Some c \<Rightarrow>
                    if ee_ProcessState (exitErrors st a) \<noteq> cmd_ProcessState c
                    then Inr (Some (PExecExitError ee))
                    else
                      let newee = \<lparr>ExitError = ee, Path = cmd_Path c, Args = cmd_Args c,
                                    Dir = cmd_Dir c, ParentEnv = env_Variables w,
                                    ChildEnv = Map.empty\<rparr>;
                          newee = (if Dir newee = []
                                   then (case os_Getwd w of
                                           Some wd \<Rightarrow> newee\<lparr>Dir := wd\<rparr>
                                         | None \<Rightarrow> newee)
                                   else newee);
                          newee = (case cmd_Env c of
                                     None \<Rightarrow> newee\<lparr>ChildEnv := ParentEnv newee\<rparr>
                                   | Some vars \<Rightarrow> newee\<lparr>ChildEnv := env_Parse vars\<rparr>)
                      in Inr (Some (PExitError (Some newee))))))"

section \<open>Methods of the decorated exit error\<close>

text \<open>
  \<open>(*os.ProcessState).String\<close> answers \<open><nil>\<close> for a nil receiver; the CPU times
  read through the receiver.  \<open>(*exec.ExitError).Error\<close> is the \<open>String()\<close> of the
  embedded process state.
\<close>

definition ProcessState_String :: "store \<Rightarrow> addr option \<Rightarrow> string" where
  "ProcessState_String st p =
     (case p of None \<Rightarrow> ''<nil>'' | Some a \<Rightarrow> ps_String (processStates st a))"

definition ProcessState_UserTime :: "store \<Rightarrow> addr option \<Rightarrow> panic + Duration" where
  "ProcessState_UserTime st p =
     (case p of None \<Rightarrow> Inl NilDereference | Some a \<Rightarrow> Inr (ps_UserTime (processStates st a)))"

definition ProcessState_SystemTime :: "store \<Rightarrow> addr option \<Rightarrow> panic + Duration" where
  "ProcessState_SystemTime st p =
     (case p of None \<Rightarrow> Inl NilDereference | Some a \<Rightarrow> Inr (ps_SystemTime (processStates st a)))"

definition exec_ExitError_Error :: "store \<Rightarrow> addr option \<Rightarrow> panic + string" where
  "exec_ExitError_Error st ee =
     (case ee of
        None \<Rightarrow> Inl NilDereference
      | Some a \<Rightarrow> Inr (ProcessState_String st (ee_ProcessState (exitErrors st a))))"

definition ExitError_Cmdline :: "ExitError option \<Rightarrow> panic + string" where
  "ExitError_Cmdline e =
     (case e of
        None \<Rightarrow> Inl NilDereference
      | Some d \<Rightarrow> cmdline (Path d) (Args d))"

definition Unwrap :: "ExitError option \<Rightarrow> panic + error option" where
  "Unwrap e =
     (case e of
        None \<Rightarrow> Inl NilDereference
      | Some d \<Rightarrow> Inr (Some (PExecExitError (ExitError d))))"

definition Error :: "store \<Rightarrow> ExitError option \<Rightarrow> panic + string" where
  "Error st e =
     (case e of
        None \<Rightarrow> Inl NilDereference
      | Some d \<Rightarrow> exec_ExitError_Error st (ExitError d))"

text \<open>
  \<open>UserTime\<close> and \<open>SystemTime\<close> are promoted through both embedded pointers.
\<close>

definition UserTime :: "store \<Rightarrow> ExitError option \<Rightarrow> panic + Duration" where
  "UserTime st e =
     (case e of
        None \<Rightarrow> Inl NilDereference
      | Some d \<Rightarrow>
          (case ExitError d of
             None \<Rightarrow> Inl NilDereference
           | Some a \<Rightarrow> ProcessState_UserTime st (ee_ProcessState (exitErrors st a))))"

definition SystemTime :: "store \<Rightarrow> ExitError option \<Rightarrow> panic + Duration" where
  "SystemTime st e =
     (case e of
        None \<Rightarrow> Inl NilDereference
      | Some d \<Rightarrow>
          (case ExitError d of
             None \<Rightarrow> Inl NilDereference
           | Some a \<Rightarrow> ProcessState_SystemTime st (ee_ProcessState (exitErrors st a))))"

section \<open>Formatting\<close>

text \<open>
  The writer is the string of bytes written so far; each \<open>Fprintf\<close> appends to it.  The
  arguments of a call are evaluated before anything is written, so a panic in an
  argument ends the function; the model then returns the panic alone.  Write errors are
  not looked at by the code and the writer of \<open>fmt\<close> has none.
\<close>

definition newline :: string where
  "newline = [CHR 0x0A]"

definition formatBasic :: "store \<Rightarrow> ExitError option \<Rightarrow> string \<Rightarrow> panic + string" where
  "formatBasic st e w =
     (case ExitError_Cmdline e of
        Inl p \<Rightarrow> Inl p
      | Inr c \<Rightarrow>
          (case e of
             None \<Rightarrow> Inl NilDereference
           | Some d \<Rightarrow>
               (case exec_ExitError_Error st (ExitError d) of
                  Inl p \<Rightarrow> Inl p
                | Inr m \<Rightarrow>
                    (let w1 = w @ c @ '': '' @ m in
                     case ExitError d of
                       None \<Rightarrow> Inl NilDereference
                     | Some a \<Rightarrow>
                         (case ee_Stderr (exitErrors st a) of
                            None \<Rightarrow> Inr w1
                          | Some stderr \<Rightarrow> Inr (w1 @ '': '' @ stderr))))))"

text \<open>
  \<open>formatDetail\<close> prints a duration with \<open>%v\<close> and the child environment with
  \<open>%+v\<close>.  Both renderings belong to other packages (\<open>time\<close> and \<open>env\<close>) and are
  parameters.
\<close>

definition formatDetail ::
  "(Duration \<Rightarrow> string) \<Rightarrow> (env_Map \<Rightarrow> string) \<Rightarrow> store \<Rightarrow> ExitError option \<Rightarrow> string
     \<Rightarrow> panic + string" where
  "formatDetail Duration_String Map_Detail st e w =
     (case formatBasic st e w of
        Inl p \<Rightarrow> Inl p
      | Inr w1 \<Rightarrow>
          (let w2 = w1 @ newline in
           case e of
             None \<Rightarrow> Inl NilDereference
           | Some d \<Rightarrow>
               (let w3 = w2 @ ''workdir: '' @ Dir d @ newline in
                case UserTime st e of
                  Inl p \<Rightarrow> Inl p
                | Inr ut \<Rightarrow>
                    (let w4 = w3 @ ''user time: '' @ Duration_String ut @ newline in
                     case SystemTime st e of
                       Inl p \<Rightarrow> Inl p
                     | Inr stime \<Rightarrow>
                         (let w5 = w4 @ ''system time: '' @ Duration_String stime @ newline;
                              w6 = w5 @ newline
                          in Inr (w6 @ Map_Detail (ChildEnv d)))))))"

text \<open>
  \<open>fmt.State\<close> is the writer together with the flags of the verb being formatted; the
  code asks for the flag \<open>+\<close> only.  The verb \<open>v\<close> is the rune 118.
\<close>

record fmt_State =
  written :: string
  flag_plus :: bool

definition Format ::
  "(Duration \<Rightarrow> string) \<Rightarrow> (env_Map \<Rightarrow> string) \<Rightarrow> store \<Rightarrow> ExitError option \<Rightarrow> fmt_State
     \<Rightarrow> rune \<Rightarrow> panic + string" where
  "Format Duration_String Map_Detail st e s verb =
     (if verb \<noteq> 118 then Inr (written s)
      else if flag_plus s then formatDetail Duration_String Map_Detail st e (written s)
      else formatBasic st e (written s))"

section \<open>The environment collaborator\<close>

text \<open>
  Modelled from the spec: \<open>env.Merge\<close> and \<open>env.Parse\<close> of the module \<open>acln.ro/env\<close>,
  which is not part of the sources.  The spec words them as "merge of two mappings
  (right-hand entries override left-hand on key collision)" and "parse of a KEY=VALUE
  sequence into the same mapping shape".  An entry is split at its first \<open>=\<close>; a later
  entry for a key replaces an earlier one.  The spec does not say what happens to an
  entry without \<open>=\<close>; here it is skipped, and nothing below depends on that.
\<close>

definition env_Merge :: "env_Map \<Rightarrow> env_Map \<Rightarrow> env_Map" where
  "env_Merge l r = l ++ r"

definition parse_entry :: "string \<Rightarrow> (string \<times> string) option" where
  "parse_entry v =
     (let key = takeWhile (\<lambda>c. c \<noteq> CHR ''='') v;
          rest = dropWhile (\<lambda>c. c \<noteq> CHR ''='') v
      in if rest = [] then None else Some (key, tl rest))"

definition env_Parse :: "string list \<Rightarrow> env_Map" where
  "env_Parse vars =
     foldl (\<lambda>m v. case parse_entry v of None \<Rightarrow> m | Some (k, x) \<Rightarrow> m(k \<mapsto> x)) Map.empty vars"

section \<open>A run of the test suite\<close>

text \<open>
  The values of one test run, for evaluating the functions on concrete inputs.  As in
  \<open>execSelf\<close> of the tests, the command is the test binary itself, whose child
  writes \<open>whoops\<close> to standard error and exits with status 1.  The exit error at address
  \<open>a\<close> belongs to the process state at address \<open>a\<close>, so different addresses are
  different runs.  The parent process has one variable and a working directory.
\<close>

definition test_store :: store where
  "test_store =
     \<lparr>processStates = (\<lambda>p. \<lparr>ps_String = ''exit status 1'', ps_UserTime = 1000000,
                               ps_SystemTime = 2000000\<rparr>),
      exitErrors = (\<lambda>a. \<lparr>ee_ProcessState = Some a, ee_Stderr = Some ''whoops''\<rparr>)\<rparr>"

definition test_world :: world where
  "test_world = \<lparr>env_Variables = [''HOME'' \<mapsto> ''/root''], os_Getwd = Some ''/go/src/execx''\<rparr>"

definition test_cmd :: "addr \<Rightarrow> string list option \<Rightarrow> exec_Cmd" where
  "test_cmd p vars =
     \<lparr>cmd_Path = ''/tmp/execx.test'', cmd_Args = [''/tmp/execx.test''], cmd_Env = vars,
      cmd_Dir = [], cmd_ProcessState = Some p\<rparr>"

text \<open>
  The decorated error that \<open>Wrap\<close> builds for run 1 when the command has no
  environment of its own.
\<close>

definition test_decorated :: ExitError where
  "test_decorated =
     \<lparr>ExitError = Some 1, Path = ''/tmp/execx.test'', Args = [''/tmp/execx.test''],
      Dir = ''/go/src/execx'', ParentEnv = [''HOME'' \<mapsto> ''/root''],
      ChildEnv = [''HOME'' \<mapsto> ''/root'']\<rparr>"

section \<open>Properties of the renderer\<close>

lemma foldl_sep_append:
  "foldl (\<lambda>b s. b @ sep @ s) acc es = acc @ concat (map (\<lambda>s. sep @ s) es)"
  by (induction es arbitrary: acc) simp_all

lemma Join_Cons: "Join (e # es) sep = e @ concat (map (\<lambda>s. sep @ s) es)"
  by (cases es) (simp_all add: Join_def foldl_sep_append)

lemma cmdline_nonempty:
  "cmdline path (a # as) = Inr (Base path @ concat (map (\<lambda>s. '' '' @ s) as))"
  by (simp add: cmdline_def slice_from_def Join_Cons)

text \<open>
  The base name of a path that ends in a separator followed by a non-empty name without
  separators is that name.
\<close>

lemma Base_last_segment:
  assumes "name \<noteq> []" and "CHR ''/'' \<notin> set name"
  shows "Base (dir @ ''/'' @ name) = name"
proof -
  have l: "\<not> IsPathSeparator (last name)"
    using assms by (metis IsPathSeparator_def last_in_set)
  have "rev (dir @ ''/'' @ name) = rev name @ (CHR ''/'' # rev dir)"
    by simp
  moreover have "dropWhile IsPathSeparator (rev name @ (CHR ''/'' # rev dir))
      = rev name @ (CHR ''/'' # rev dir)"
    using assms l by (cases "rev name") (auto simp: hd_rev)
  moreover have "takeWhile (\<lambda>c. \<not> IsPathSeparator c) (rev name @ (CHR ''/'' # rev dir))
      = rev name"
    using assms by (auto simp add: takeWhile_tail IsPathSeparator_def)
  ultimately show ?thesis
    using assms by (simp add: Base_def Let_def)
qed

text \<open>
  Claim C6.  For every path and every non-empty argument sequence the renderer returns
  the base name of the path followed by the arguments from index 1 onward, each preceded
  by one space.  The base name is the last segment of the path: for a path that ends in
  a separator and a non-empty name free of separators it is that name.  In particular
  \<open>/usr/bin/git\<close> with the arguments \<open>git\<close>, \<open>fetch\<close>, \<open>something\<close> renders as
  \<open>git fetch something\<close>.
\<close>

theorem cmdline_base_and_arguments:
  "cmdline path (a # as) = Inr (Base path @ concat (map (\<lambda>s. '' '' @ s) as))
   \<and> (name \<noteq> [] \<and> CHR ''/'' \<notin> set name \<longrightarrow> Base (dir @ ''/'' @ name) = name)
   \<and> cmdline ''/usr/bin/git'' [''git'', ''fetch'', ''something''] = Inr ''git fetch something''"
proof (intro conjI impI)
  show "cmdline path (a # as) = Inr (Base path @ concat (map (\<lambda>s. '' '' @ s) as))"
    by (rule cmdline_nonempty)
  show "Base (dir @ ''/'' @ name) = name" if "name \<noteq> [] \<and> CHR ''/'' \<notin> set name"
    using that Base_last_segment [of name dir] by simp
  show "cmdline ''/usr/bin/git'' [''git'', ''fetch'', ''something''] = Inr ''git fetch something''"
    by (simp add: cmdline_def slice_from_def Join_def Base_def IsPathSeparator_def)
qed

theorem cmdline_base_and_arguments_witness:
  "cmdline ''/tmp/execx.test'' [''/tmp/execx.test'', ''-v'', ''a b''] = Inr ''execx.test -v a b''
   \<and> ''git'' \<noteq> [] \<and> CHR ''/'' \<notin> set ''git'' \<and> Base (''/usr/bin'' @ ''/'' @ ''git'') = ''git''"
  using cmdline_base_and_arguments [of "''/tmp/execx.test''" "''/tmp/execx.test''" "[''-v'', ''a b'']" "''git''" "''/usr/bin''"]
  by (simp add: Base_def IsPathSeparator_def)

text \<open>
  Claim C2.  The renderer is claimed never to fail, the empty argument sequence included.
  On the empty sequence the slice expression \<open>args[1:]\<close> is out of range and the
  renderer panics, for every path; so does \<open>Cmdline\<close> on a command whose \<open>Args\<close>
  are empty, which \<open>os/exec\<close> accepts and runs with the path alone.
\<close>

theorem cmdline_empty_args_panics:
  "cmdline path [] = Inl (SliceBoundsOutOfRange 1 0)
   \<and> cmdline ''/bin/true'' [] = Inl (SliceBoundsOutOfRange 1 0)
   \<and> Cmdline (Some \<lparr>cmd_Path = ''/bin/true'', cmd_Args = [], cmd_Env = None, cmd_Dir = [],
                    cmd_ProcessState = None\<rparr>) = Inl (SliceBoundsOutOfRange 1 0)"
  by (simp add: Cmdline_def cmdline_def slice_from_def)

section \<open>Properties of Wrap\<close>

text \<open>
  The matched case in one equation: every field of the decorated error.
\<close>

lemma Wrap_matched:
  assumes "ee_ProcessState (exitErrors st a) = cmd_ProcessState c"
  shows "Wrap P w st (Some (PExecExitError (Some a))) (Some c) =
           Inr (Some (PExitError (Some
             \<lparr>ExitError = Some a, Path = cmd_Path c, Args = cmd_Args c,
              Dir = (if cmd_Dir c = [] then (case os_Getwd w of Some wd \<Rightarrow> wd | None \<Rightarrow> [])
                     else cmd_Dir c),
              ParentEnv = env_Variables w,
              ChildEnv = (case cmd_Env c of None \<Rightarrow> env_Variables w | Some vars \<Rightarrow> P vars)\<rparr>)))"
  using assms by (simp add: Wrap_def Let_def split: option.splits)

text \<open>
  A merge is its right-hand map exactly when every key of the left-hand map is a key of
  the right-hand map.
\<close>

lemma map_add_absorb: "(m ++ p = p) \<longleftrightarrow> dom m \<subseteq> dom p"
  by (auto simp: fun_eq_iff map_add_def dom_def split: option.splits)

text \<open>
  The modelled parse on the two explicit environments used below.
\<close>

lemma env_Parse_test: "env_Parse [''EXECX_TEST=on''] = [''EXECX_TEST'' \<mapsto> ''on'']"
  by (simp add: env_Parse_def parse_entry_def)

lemma env_Parse_test2:
  "env_Parse [''HOME=/root'', ''EXECX_TEST=on'']
     = [''HOME'' \<mapsto> ''/root'', ''EXECX_TEST'' \<mapsto> ''on'']"
  by (simp add: env_Parse_def parse_entry_def)

text \<open>
  Claim C3.  An absent error gives an absent result; an error that is not a
  \<open>*exec.ExitError\<close> (of another type, or a decorated error of this package) is returned
  as it is; an exit error whose process state is not the command's is returned as it is.
  The result is a decorated error built around the input exactly when the input is an
  exit error whose process state is the command's; every other error, the nil pointer of
  type \<open>*exec.ExitError\<close> apart, is returned as it is.
\<close>

theorem Wrap_decision:
  "Wrap P w st None cmd = Inr None
   \<and> Wrap P w st (Some (OtherError x)) cmd = Inr (Some (OtherError x))
   \<and> Wrap P w st (Some (PExitError e)) cmd = Inr (Some (PExitError e))
   \<and> (ee_ProcessState (exitErrors st a) \<noteq> cmd_ProcessState c \<longrightarrow>
        Wrap P w st (Some (PExecExitError (Some a))) (Some c) = Inr (Some (PExecExitError (Some a))))
   \<and> ((\<exists>d. Wrap P w st err (Some c) = Inr (Some (PExitError (Some d)))
            \<and> err = Some (PExecExitError (ExitError d)))
        \<longleftrightarrow> (\<exists>b. err = Some (PExecExitError (Some b))
                 \<and> ee_ProcessState (exitErrors st b) = cmd_ProcessState c))
   \<and> (err \<noteq> Some (PExecExitError None)
        \<and> (\<forall>b. err = Some (PExecExitError (Some b))
                 \<longrightarrow> ee_ProcessState (exitErrors st b) \<noteq> cmd_ProcessState c)
        \<longrightarrow> Wrap P w st err (Some c) = Inr err)"
proof (intro conjI impI)
  show "Wrap P w st err (Some c) = Inr err"
    if "err \<noteq> Some (PExecExitError None)
        \<and> (\<forall>b. err = Some (PExecExitError (Some b))
                 \<longrightarrow> ee_ProcessState (exitErrors st b) \<noteq> cmd_ProcessState c)"
    using that by (auto simp: Wrap_def split: option.splits error.splits)
  show "Wrap P w st None cmd = Inr None"
    by (simp add: Wrap_def)
  show "Wrap P w st (Some (OtherError x)) cmd = Inr (Some (OtherError x))"
    by (simp add: Wrap_def)
  show "Wrap P w st (Some (PExitError e)) cmd = Inr (Some (PExitError e))"
    by (simp add: Wrap_def)
  show "Wrap P w st (Some (PExecExitError (Some a))) (Some c) = Inr (Some (PExecExitError (Some a)))"
    if "ee_ProcessState (exitErrors st a) \<noteq> cmd_ProcessState c"
    using that by (simp add: Wrap_def)
  show "(\<exists>d. Wrap P w st err (Some c) = Inr (Some (PExitError (Some d)))
            \<and> err = Some (PExecExitError (ExitError d)))
        \<longleftrightarrow> (\<exists>b. err = Some (PExecExitError (Some b))
                 \<and> ee_ProcessState (exitErrors st b) = cmd_ProcessState c)"
  proof
    assume "\<exists>d. Wrap P w st err (Some c) = Inr (Some (PExitError (Some d)))
            \<and> err = Some (PExecExitError (ExitError d))"
    then obtain d where r: "Wrap P w st err (Some c) = Inr (Some (PExitError (Some d)))"
      and e: "err = Some (PExecExitError (ExitError d))" by blast
    show "\<exists>b. err = Some (PExecExitError (Some b))
                 \<and> ee_ProcessState (exitErrors st b) = cmd_ProcessState c"
    proof (cases "ExitError d")
      case None
      with r e show ?thesis by (simp add: Wrap_def)
    next
      case (Some b)
      with r e have "ee_ProcessState (exitErrors st b) = cmd_ProcessState c"
        by (auto simp: Wrap_def split: if_splits)
      with Some e show ?thesis by simp
    qed
  next
    assume "\<exists>b. err = Some (PExecExitError (Some b))
                 \<and> ee_ProcessState (exitErrors st b) = cmd_ProcessState c"
    then obtain b where e: "err = Some (PExecExitError (Some b))"
      and m: "ee_ProcessState (exitErrors st b) = cmd_ProcessState c" by blast
    show "\<exists>d. Wrap P w st err (Some c) = Inr (Some (PExitError (Some d)))
            \<and> err = Some (PExecExitError (ExitError d))"
      unfolding e Wrap_matched [OF m] by simp
  qed
qed

theorem Wrap_decision_witness:
  "ee_ProcessState (exitErrors test_store 1) \<noteq> cmd_ProcessState (test_cmd 2 None)
   \<and> Wrap env_Parse test_world test_store (Some (PExecExitError (Some 1))) (Some (test_cmd 2 None))
       = Inr (Some (PExecExitError (Some 1)))
   \<and> ee_ProcessState (exitErrors test_store 2) \<noteq> cmd_ProcessState (test_cmd 1 None)
   \<and> Wrap env_Parse test_world test_store (Some (PExecExitError (Some 2))) (Some (test_cmd 1 None))
       = Inr (Some (PExecExitError (Some 2)))
   \<and> ee_ProcessState (exitErrors test_store 1) = cmd_ProcessState (test_cmd 1 None)
   \<and> Wrap env_Parse test_world test_store (Some (PExecExitError (Some 1))) (Some (test_cmd 1 None))
       = Inr (Some (PExitError (Some test_decorated)))
   \<and> ExitError test_decorated = Some 1"
proof -
  have "Wrap env_Parse test_world test_store (Some (PExecExitError (Some 1))) (Some (test_cmd 1 None))
       = Inr (Some (PExitError (Some test_decorated)))"
    by (simp add: Wrap_def test_store_def test_cmd_def test_world_def test_decorated_def)
  then show ?thesis
    using Wrap_decision [of env_Parse test_world test_store _ _ _ 1 "test_cmd 2 None"]
      Wrap_decision [of env_Parse test_world test_store _ _ _ 2 "test_cmd 1 None"]
      Wrap_decision [of env_Parse test_world test_store _ _ _ _ "test_cmd 1 None"
        "Some (PExecExitError (Some 1))"]
    by (simp add: test_store_def test_cmd_def test_decorated_def)
qed

text \<open>
  Claim C10.  The command is read only after the error is known to be an exit error:
  with a nil command, an absent error and an error of any other type pass through, and
  an exit error makes \<open>Wrap\<close> panic on the nil dereference.
\<close>

theorem Wrap_nil_Cmd:
  "Wrap P w st None None = Inr None
   \<and> Wrap P w st (Some (OtherError x)) None = Inr (Some (OtherError x))
   \<and> Wrap P w st (Some (PExitError e)) None = Inr (Some (PExitError e))
   \<and> Wrap P w st (Some (PExecExitError ee)) None = Inl NilDereference"
  by (simp add: Wrap_def split: option.splits)

text \<open>
  Claim C5.  In the matched case \<open>ParentEnv\<close> is the snapshot taken in the call, and
  \<open>ChildEnv\<close> is \<open>ParentEnv\<close> when the command's \<open>Env\<close> is nil and the parse of
  \<open>Env\<close> otherwise, the empty \<open>Env\<close> included.
\<close>

theorem Wrap_ChildEnv:
  assumes "ee_ProcessState (exitErrors st a) = cmd_ProcessState c"
  shows "\<exists>d. Wrap P w st (Some (PExecExitError (Some a))) (Some c) = Inr (Some (PExitError (Some d)))
           \<and> ParentEnv d = env_Variables w
           \<and> ChildEnv d = (case cmd_Env c of None \<Rightarrow> ParentEnv d | Some vars \<Rightarrow> P vars)"
  unfolding Wrap_matched [OF assms] by (simp split: option.splits)

theorem Wrap_ChildEnv_witness:
  "ee_ProcessState (exitErrors test_store 1) = cmd_ProcessState (test_cmd 1 (Some []))
   \<and> (\<exists>d. Wrap env_Parse test_world test_store (Some (PExecExitError (Some 1)))
             (Some (test_cmd 1 (Some []))) = Inr (Some (PExitError (Some d)))
          \<and> ParentEnv d = [''HOME'' \<mapsto> ''/root'']
          \<and> ChildEnv d = Map.empty)"
  using Wrap_ChildEnv [of test_store 1 "test_cmd 1 (Some [])" env_Parse test_world]
  by (simp add: test_store_def test_cmd_def test_world_def env_Parse_def)

text \<open>
  Claim C1, as stated: with an explicit environment, \<open>ChildEnv\<close> is the merge of the
  parent snapshot with the parsed environment.  It is not: the run below has the parent
  variable \<open>HOME\<close> and the explicit environment \<open>EXECX_TEST=on\<close>; \<open>ChildEnv\<close> holds
  \<open>EXECX_TEST\<close> alone, the merge holds both.
\<close>

theorem Wrap_ChildEnv_is_not_merged:
  "ee_ProcessState (exitErrors test_store 1) = cmd_ProcessState (test_cmd 1 (Some [''EXECX_TEST=on'']))
   \<and> cmd_Env (test_cmd 1 (Some [''EXECX_TEST=on''])) = Some [''EXECX_TEST=on'']
   \<and> Wrap env_Parse test_world test_store (Some (PExecExitError (Some 1)))
         (Some (test_cmd 1 (Some [''EXECX_TEST=on''])))
       = Inr (Some (PExitError (Some
           \<lparr>ExitError = Some 1, Path = ''/tmp/execx.test'', Args = [''/tmp/execx.test''],
            Dir = ''/go/src/execx'', ParentEnv = [''HOME'' \<mapsto> ''/root''],
            ChildEnv = [''EXECX_TEST'' \<mapsto> ''on'']\<rparr>)))
   \<and> env_Merge [''HOME'' \<mapsto> ''/root''] (env_Parse [''EXECX_TEST=on''])
       = [''HOME'' \<mapsto> ''/root'', ''EXECX_TEST'' \<mapsto> ''on'']
   \<and> [''EXECX_TEST'' \<mapsto> ''on''] \<noteq> [''HOME'' \<mapsto> ''/root'', ''EXECX_TEST'' \<mapsto> ''on'']"
proof (intro conjI)
  show "ee_ProcessState (exitErrors test_store 1) = cmd_ProcessState (test_cmd 1 (Some [''EXECX_TEST=on'']))"
    by (simp add: test_store_def test_cmd_def)
  show "cmd_Env (test_cmd 1 (Some [''EXECX_TEST=on''])) = Some [''EXECX_TEST=on'']"
    by (simp add: test_cmd_def)
  show "Wrap env_Parse test_world test_store (Some (PExecExitError (Some 1)))
         (Some (test_cmd 1 (Some [''EXECX_TEST=on''])))
       = Inr (Some (PExitError (Some
           \<lparr>ExitError = Some 1, Path = ''/tmp/execx.test'', Args = [''/tmp/execx.test''],
            Dir = ''/go/src/execx'', ParentEnv = [''HOME'' \<mapsto> ''/root''],
            ChildEnv = [''EXECX_TEST'' \<mapsto> ''on'']\<rparr>)))"
    by (simp add: Wrap_def test_store_def test_cmd_def test_world_def env_Parse_test)
  show "env_Merge [''HOME'' \<mapsto> ''/root''] (env_Parse [''EXECX_TEST=on''])
       = [''HOME'' \<mapsto> ''/root'', ''EXECX_TEST'' \<mapsto> ''on'']"
    by (simp add: env_Merge_def env_Parse_test)
  show "[''EXECX_TEST'' \<mapsto> ''on''] \<noteq> [''HOME'' \<mapsto> ''/root'', ''EXECX_TEST'' \<mapsto> ''on'']"
  proof
    assume "[''EXECX_TEST'' \<mapsto> ''on''] = [''HOME'' \<mapsto> ''/root'', ''EXECX_TEST'' \<mapsto> ''on'']"
    then have "[''EXECX_TEST'' \<mapsto> ''on''] ''HOME'' = [''HOME'' \<mapsto> ''/root'', ''EXECX_TEST'' \<mapsto> ''on''] ''HOME''"
      by (rule fun_cong)
    then show False by simp
  qed
qed

text \<open>
  Claim C1, amended.  In the matched case, with an explicit environment \<open>ChildEnv\<close> is
  the parse of that environment, which is the merge of the parent snapshot with it exactly
  when every variable name of the parent snapshot is also set by the explicit environment;
  with no explicit environment \<open>ChildEnv\<close> is \<open>ParentEnv\<close>.
\<close>

theorem Wrap_ChildEnv_parsed_only:
  assumes "ee_ProcessState (exitErrors st a) = cmd_ProcessState c"
  shows "\<exists>d. Wrap P w st (Some (PExecExitError (Some a))) (Some c) = Inr (Some (PExitError (Some d)))
           \<and> ParentEnv d = env_Variables w
           \<and> (cmd_Env c = None \<longrightarrow> ChildEnv d = ParentEnv d)
           \<and> (\<forall>vars. cmd_Env c = Some vars \<longrightarrow>
                 ChildEnv d = P vars
                 \<and> (ChildEnv d = env_Merge (ParentEnv d) (P vars) \<longleftrightarrow> dom (ParentEnv d) \<subseteq> dom (P vars)))"
  unfolding Wrap_matched [OF assms] by (auto simp: env_Merge_def map_add_absorb [symmetric])

theorem Wrap_ChildEnv_parsed_only_witness:
  "ee_ProcessState (exitErrors test_store 1)
     = cmd_ProcessState (test_cmd 1 (Some [''HOME=/root'', ''EXECX_TEST=on'']))
   \<and> (\<exists>d. Wrap env_Parse test_world test_store (Some (PExecExitError (Some 1)))
             (Some (test_cmd 1 (Some [''HOME=/root'', ''EXECX_TEST=on''])))
           = Inr (Some (PExitError (Some d)))
          \<and> ParentEnv d = [''HOME'' \<mapsto> ''/root'']
          \<and> ChildEnv d = [''HOME'' \<mapsto> ''/root'', ''EXECX_TEST'' \<mapsto> ''on'']
          \<and> ChildEnv d = env_Merge (ParentEnv d) (env_Parse [''HOME=/root'', ''EXECX_TEST=on'']))"
  using Wrap_ChildEnv_parsed_only [of test_store 1 "test_cmd 1 (Some [''HOME=/root'', ''EXECX_TEST=on''])" env_Parse test_world]
  by (auto simp add: test_store_def test_cmd_def test_world_def env_Parse_test2 env_Merge_def)

text \<open>
  Claim C7.  In the matched case \<open>Wrap\<close> returns a decorated error whatever
  \<open>os.Getwd\<close> answers.  Its \<open>Dir\<close> is the command's directory when that is not
  empty; otherwise it is the working directory when the query succeeds and stays empty
  when the query fails.
\<close>

theorem Wrap_Dir:
  assumes "ee_ProcessState (exitErrors st a) = cmd_ProcessState c"
  shows "\<exists>d. Wrap P w st (Some (PExecExitError (Some a))) (Some c) = Inr (Some (PExitError (Some d)))
           \<and> (cmd_Dir c \<noteq> [] \<longrightarrow> Dir d = cmd_Dir c)
           \<and> (cmd_Dir c = [] \<longrightarrow> (\<forall>wd. os_Getwd w = Some wd \<longrightarrow> Dir d = wd)
                                  \<and> (os_Getwd w = None \<longrightarrow> Dir d = []))"
  unfolding Wrap_matched [OF assms] by simp

theorem Wrap_Dir_witness:
  "ee_ProcessState (exitErrors test_store 1) = cmd_ProcessState (test_cmd 1 None)
   \<and> (\<exists>d. Wrap env_Parse (test_world\<lparr>os_Getwd := None\<rparr>) test_store (Some (PExecExitError (Some 1)))
             (Some (test_cmd 1 None)) = Inr (Some (PExitError (Some d)))
          \<and> Dir d = [])
   \<and> (\<exists>d. Wrap env_Parse test_world test_store (Some (PExecExitError (Some 1)))
             (Some (test_cmd 1 None)) = Inr (Some (PExitError (Some d)))
          \<and> Dir d = ''/go/src/execx'')
   \<and> (\<exists>d. Wrap env_Parse test_world test_store (Some (PExecExitError (Some 1)))
             (Some ((test_cmd 1 None)\<lparr>cmd_Dir := ''/srv''\<rparr>)) = Inr (Some (PExitError (Some d)))
          \<and> Dir d = ''/srv'')"
  using Wrap_Dir [of test_store 1 "test_cmd 1 None" env_Parse "test_world\<lparr>os_Getwd := None\<rparr>"]
    Wrap_Dir [of test_store 1 "test_cmd 1 None" env_Parse test_world]
    Wrap_Dir [of test_store 1 "(test_cmd 1 None)\<lparr>cmd_Dir := ''/srv''\<rparr>" env_Parse test_world]
  by (simp add: test_store_def test_cmd_def test_world_def)

text \<open>
  Claim C8.  In the matched case \<open>Unwrap\<close> of the decorated error is the very exit
  error that was passed in (the same pointer), and \<open>Error\<close> of the decorated error is
  the message of that exit error.
\<close>

theorem Wrap_additive:
  assumes "ee_ProcessState (exitErrors st a) = cmd_ProcessState c"
  shows "\<exists>d. Wrap P w st (Some (PExecExitError (Some a))) (Some c) = Inr (Some (PExitError (Some d)))
           \<and> Unwrap (Some d) = Inr (Some (PExecExitError (Some a)))
           \<and> Error st (Some d) = exec_ExitError_Error st (Some a)
           \<and> Error st (Some d) = Inr (ProcessState_String st (ee_ProcessState (exitErrors st a)))"
  unfolding Wrap_matched [OF assms] by (simp add: Unwrap_def Error_def exec_ExitError_Error_def)

theorem Wrap_additive_witness:
  "ee_ProcessState (exitErrors test_store 1) = cmd_ProcessState (test_cmd 1 None)
   \<and> (\<exists>d. Wrap env_Parse test_world test_store (Some (PExecExitError (Some 1)))
             (Some (test_cmd 1 None)) = Inr (Some (PExitError (Some d)))
          \<and> Unwrap (Some d) = Inr (Some (PExecExitError (Some 1)))
          \<and> Error test_store (Some d) = Inr ''exit status 1'')"
  using Wrap_additive [of test_store 1 "test_cmd 1 None" env_Parse test_world]
  by (auto simp add: test_store_def test_cmd_def ProcessState_String_def)

section \<open>Properties of the formatter\<close>

text \<open>
  \<open>formatBasic\<close> on a decorated error whose embedded exit error is present and whose
  command line renders.
\<close>

lemma formatBasic_ok:
  assumes "ExitError d = Some a" and "cmdline (Path d) (Args d) = Inr line"
  shows "formatBasic st (Some d) w =
           Inr (w @ line @ '': '' @ ProcessState_String st (ee_ProcessState (exitErrors st a))
                @ (case ee_Stderr (exitErrors st a) of None \<Rightarrow> [] | Some stderr \<Rightarrow> '': '' @ stderr))"
  using assms
  by (simp add: formatBasic_def ExitError_Cmdline_def exec_ExitError_Error_def
      split: option.splits)

text \<open>
  Claim C4.  With a verb other than \<open>v\<close>, \<open>Format\<close> writes nothing and does not
  panic, for either state of the flag and any receiver.  With \<open>v\<close> and no \<open>+\<close> it
  writes the rendered command line, \<open>: \<close> and the message of the underlying error, and
  then \<open>: \<close> and the captured standard error when there is one.  With \<open>v\<close> and \<open>+\<close>
  it writes the same, a line break, the \<open>workdir\<close> line, the \<open>user time\<close> line, the
  \<open>system time\<close> line, an empty line and the detailed rendering of \<open>ChildEnv\<close>.
  Every line break is the byte 10, written out below.
\<close>

theorem Format_table:
  "(verb \<noteq> 118 \<longrightarrow> Format DS MD st e s verb = Inr (written s))
   \<and> (ExitError d = Some a \<and> cmdline (Path d) (Args d) = Inr line
        \<and> exec_ExitError_Error st (Some a) = Inr msg \<and> \<not> flag_plus s \<longrightarrow>
        Format DS MD st (Some d) s 118 =
          Inr (written s @ line @ '': '' @ msg
               @ (case ee_Stderr (exitErrors st a) of None \<Rightarrow> [] | Some stderr \<Rightarrow> '': '' @ stderr)))
   \<and> (ExitError d = Some a \<and> cmdline (Path d) (Args d) = Inr line
        \<and> exec_ExitError_Error st (Some a) = Inr msg
        \<and> UserTime st (Some d) = Inr ut \<and> SystemTime st (Some d) = Inr stime \<and> flag_plus s \<longrightarrow>
        Format DS MD st (Some d) s 118 =
          Inr (written s @ line @ '': '' @ msg
               @ (case ee_Stderr (exitErrors st a) of None \<Rightarrow> [] | Some stderr \<Rightarrow> '': '' @ stderr)
               @ [CHR 0x0A]
               @ ''workdir: '' @ Dir d @ [CHR 0x0A]
               @ ''user time: '' @ DS ut @ [CHR 0x0A]
               @ ''system time: '' @ DS stime @ [CHR 0x0A]
               @ [CHR 0x0A]
               @ MD (ChildEnv d)))"
proof (intro conjI impI)
  show "Format DS MD st e s verb = Inr (written s)" if "verb \<noteq> 118"
    using that by (simp add: Format_def)
  show "Format DS MD st (Some d) s 118 =
          Inr (written s @ line @ '': '' @ msg
               @ (case ee_Stderr (exitErrors st a) of None \<Rightarrow> [] | Some stderr \<Rightarrow> '': '' @ stderr))"
    if "ExitError d = Some a \<and> cmdline (Path d) (Args d) = Inr line
        \<and> exec_ExitError_Error st (Some a) = Inr msg \<and> \<not> flag_plus s"
  proof -
    from that have "formatBasic st (Some d) (written s) =
          Inr (written s @ line @ '': '' @ msg
               @ (case ee_Stderr (exitErrors st a) of None \<Rightarrow> [] | Some stderr \<Rightarrow> '': '' @ stderr))"
      by (simp add: formatBasic_ok exec_ExitError_Error_def)
    with that show ?thesis by (simp add: Format_def)
  qed
  show "Format DS MD st (Some d) s 118 =
          Inr (written s @ line @ '': '' @ msg
               @ (case ee_Stderr (exitErrors st a) of None \<Rightarrow> [] | Some stderr \<Rightarrow> '': '' @ stderr)
               @ [CHR 0x0A]
               @ ''workdir: '' @ Dir d @ [CHR 0x0A]
               @ ''user time: '' @ DS ut @ [CHR 0x0A]
               @ ''system time: '' @ DS stime @ [CHR 0x0A]
               @ [CHR 0x0A]
               @ MD (ChildEnv d))"
    if "ExitError d = Some a \<and> cmdline (Path d) (Args d) = Inr line
        \<and> exec_ExitError_Error st (Some a) = Inr msg
        \<and> UserTime st (Some d) = Inr ut \<and> SystemTime st (Some d) = Inr stime \<and> flag_plus s"
  proof -
    from that have "formatBasic st (Some d) (written s) =
          Inr (written s @ line @ '': '' @ msg
               @ (case ee_Stderr (exitErrors st a) of None \<Rightarrow> [] | Some stderr \<Rightarrow> '': '' @ stderr))"
      by (simp add: formatBasic_ok exec_ExitError_Error_def)
    with that show ?thesis by (simp add: Format_def formatDetail_def newline_def)
  qed
qed

theorem Format_table_witness:
  "(100::int) \<noteq> 118
   \<and> Format (\<lambda>t. if t = 1000000 then ''1ms'' else ''2ms'') (\<lambda>m. ''HOME=/root'') test_store (Some test_decorated)
        \<lparr>written = [], flag_plus = False\<rparr> 100 = Inr []
   \<and> Format (\<lambda>t. if t = 1000000 then ''1ms'' else ''2ms'') (\<lambda>m. ''HOME=/root'') test_store (Some test_decorated)
        \<lparr>written = [], flag_plus = True\<rparr> 100 = Inr []
   \<and> ExitError test_decorated = Some 1
   \<and> cmdline (Path test_decorated) (Args test_decorated) = Inr ''execx.test''
   \<and> exec_ExitError_Error test_store (Some 1) = Inr ''exit status 1''
   \<and> Format (\<lambda>t. if t = 1000000 then ''1ms'' else ''2ms'') (\<lambda>m. ''HOME=/root'') test_store (Some test_decorated)
        \<lparr>written = [], flag_plus = False\<rparr> 118 = Inr ''execx.test: exit status 1: whoops''
   \<and> UserTime test_store (Some test_decorated) = Inr 1000000
   \<and> SystemTime test_store (Some test_decorated) = Inr 2000000
   \<and> Format (\<lambda>t. if t = 1000000 then ''1ms'' else ''2ms'') (\<lambda>m. ''HOME=/root'') test_store (Some test_decorated)
        \<lparr>written = [], flag_plus = True\<rparr> 118 =
        Inr (''execx.test: exit status 1: whoops'' @ [CHR 0x0A]
             @ ''workdir: /go/src/execx'' @ [CHR 0x0A]
             @ ''user time: 1ms'' @ [CHR 0x0A]
             @ ''system time: 2ms'' @ [CHR 0x0A]
             @ [CHR 0x0A]
             @ ''HOME=/root'')"
proof -
  have c: "cmdline (Path test_decorated) (Args test_decorated) = Inr ''execx.test''"
    by (simp add: test_decorated_def cmdline_def slice_from_def Join_def Base_def IsPathSeparator_def)
  have m: "exec_ExitError_Error test_store (Some 1) = Inr ''exit status 1''"
    by (simp add: exec_ExitError_Error_def ProcessState_String_def test_store_def)
  have u: "UserTime test_store (Some test_decorated) = Inr 1000000"
    by (simp add: UserTime_def ProcessState_UserTime_def test_store_def test_decorated_def)
  have y: "SystemTime test_store (Some test_decorated) = Inr 2000000"
    by (simp add: SystemTime_def ProcessState_SystemTime_def test_store_def test_decorated_def)
  have e: "ExitError test_decorated = Some 1" "Dir test_decorated = ''/go/src/execx''"
    "ee_Stderr (exitErrors test_store 1) = Some ''whoops''"
    by (simp_all add: test_decorated_def test_store_def)
  show ?thesis
    using Format_table [of 100 "\<lambda>t. if t = 1000000 then ''1ms'' else ''2ms''" "\<lambda>m. ''HOME=/root''" test_store "Some test_decorated"
        "\<lparr>written = [], flag_plus = False\<rparr>" test_decorated 1 "''execx.test''" "''exit status 1''"
        1000000 2000000]
      Format_table [of 100 "\<lambda>t. if t = 1000000 then ''1ms'' else ''2ms''" "\<lambda>m. ''HOME=/root''" test_store "Some test_decorated"
        "\<lparr>written = [], flag_plus = True\<rparr>" test_decorated 1 "''execx.test''" "''exit status 1''"
        1000000 2000000]
      c m u y e
    by simp
qed

text \<open>
  Claim C9.  \<open>formatBasic\<close> decides on the presence of the captured standard error,
  not on its length: a nil \<open>Stderr\<close> gives no suffix, a captured \<open>Stderr\<close> gives
  \<open>: \<close> and its bytes, so a captured but empty \<open>Stderr\<close> leaves a trailing \<open>: \<close>.
\<close>

theorem formatBasic_stderr_presence:
  assumes "ExitError d = Some a"
    and "cmdline (Path d) (Args d) = Inr line"
    and "exec_ExitError_Error st (Some a) = Inr msg"
  shows "(ee_Stderr (exitErrors st a) = None \<longrightarrow>
            formatBasic st (Some d) w = Inr (w @ line @ '': '' @ msg))
       \<and> (ee_Stderr (exitErrors st a) = Some [] \<longrightarrow>
            formatBasic st (Some d) w = Inr (w @ line @ '': '' @ msg @ '': ''))
       \<and> (\<forall>stderr. ee_Stderr (exitErrors st a) = Some stderr \<longrightarrow>
            formatBasic st (Some d) w = Inr (w @ line @ '': '' @ msg @ '': '' @ stderr))"
  using assms by (simp add: formatBasic_ok exec_ExitError_Error_def)

theorem formatBasic_stderr_presence_witness:
  "ExitError test_decorated = Some 1
   \<and> cmdline (Path test_decorated) (Args test_decorated) = Inr ''execx.test''
   \<and> exec_ExitError_Error
        (test_store\<lparr>exitErrors := \<lambda>a. \<lparr>ee_ProcessState = Some a, ee_Stderr = Some []\<rparr>\<rparr>) (Some 1)
       = Inr ''exit status 1''
   \<and> formatBasic (test_store\<lparr>exitErrors := \<lambda>a. \<lparr>ee_ProcessState = Some a, ee_Stderr = Some []\<rparr>\<rparr>)
        (Some test_decorated) [] = Inr ''execx.test: exit status 1: ''
   \<and> formatBasic (test_store\<lparr>exitErrors := \<lambda>a. \<lparr>ee_ProcessState = Some a, ee_Stderr = None\<rparr>\<rparr>)
        (Some test_decorated) [] = Inr ''execx.test: exit status 1''
   \<and> formatBasic test_store (Some test_decorated) [] = Inr ''execx.test: exit status 1: whoops''"
proof -
  have c: "cmdline (Path test_decorated) (Args test_decorated) = Inr ''execx.test''"
    by (simp add: test_decorated_def cmdline_def slice_from_def Join_def Base_def IsPathSeparator_def)
  have e: "ExitError test_decorated = Some 1"
    by (simp add: test_decorated_def)
  have m: "exec_ExitError_Error (test_store\<lparr>exitErrors := \<lambda>a. \<lparr>ee_ProcessState = Some a, ee_Stderr = x\<rparr>\<rparr>)
       (Some 1) = Inr ''exit status 1''" for x
    by (simp add: exec_ExitError_Error_def ProcessState_String_def test_store_def)
  have m': "exec_ExitError_Error test_store (Some 1) = Inr ''exit status 1''"
    by (simp add: exec_ExitError_Error_def ProcessState_String_def test_store_def)
  show ?thesis
    using formatBasic_stderr_presence [OF e c m, of "Some []" "[]"]
      formatBasic_stderr_presence [OF e c m, of None "[]"]
      formatBasic_stderr_presence [OF e c m', of "[]"]
      c e m [of "Some []"]
    by (simp add: test_store_def)
qed

end
